theory Spec2Isabelle
  imports Complex_Main
begin

section \<open>The 3D viewer of safe-high-rise (Viewer3D.jsx)\<close>

text \<open>
  A shallow embedding of the component \<^verbatim>\<open>DetailedBuilding\<close> and of
  \<^verbatim>\<open>captureSnapshot\<close> of \<^verbatim>\<open>Viewer3D\<close>.

  Conventions of the embedding:
  \<^item> a JavaScript number is a \<open>real\<close>: the arithmetic of the source is read as exact
    arithmetic, rounding of IEEE doubles is not modelled, and \<open>NaN\<close> does not occur;
  \<^item> a field that may be \<open>undefined\<close> has an \<open>option\<close> type, \<open>None\<close> for
    \<open>undefined\<close> or \<open>null\<close>;
  \<^item> a string is a list of bytes; \<open>toLowerCase\<close> is modelled on ASCII letters;
  \<^item> a JSX child written \<^verbatim>\<open>{cond && <x/>}\<close> is a list with one element when
    \<open>cond\<close> holds and the empty list otherwise; the children of an element are
    the concatenation of these lists, in source order.
\<close>

subsection \<open>Strings\<close>

definition lower_char :: "char \<Rightarrow> char" where
  "lower_char c =
     (let n = (of_char c :: nat) in if 65 \<le> n \<and> n \<le> 90 then char_of (n + 32) else c)"

definition toLowerCase :: "string \<Rightarrow> string" where
  "toLowerCase s = map lower_char s"

fun starts_with :: "string \<Rightarrow> string \<Rightarrow> bool" where
  "starts_with s [] = True"
| "starts_with [] (c # cs) = False"
| "starts_with (x # xs) (c # cs) = (x = c \<and> starts_with xs cs)"

text \<open>\<^verbatim>\<open>s.includes(sub)\<close>: \<open>sub\<close> occurs in \<open>s\<close> as a contiguous substring.\<close>

fun str_includes :: "string \<Rightarrow> string \<Rightarrow> bool" where
  "str_includes [] sub = (sub = [])"
| "str_includes (x # xs) sub = (starts_with (x # xs) sub \<or> str_includes xs sub)"

text \<open>\<^verbatim>\<open>s?.includes(sub) ? a : b\<close> reads an undefined \<open>s\<close> as false.\<close>

definition opt_includes :: "string option \<Rightarrow> string \<Rightarrow> bool" where
  "opt_includes s sub = (case s of None \<Rightarrow> False | Some t \<Rightarrow> str_includes t sub)"

subsection \<open>The props: the result object of the analysis\<close>

record geometry_params =
  type :: "string option"
  height :: "real option"
  taper :: "real option"
  twist :: "real option"

record profile =
  seismic_zone :: "string option"
  flood_risk :: "string option"
  max_wind_speed :: "real option"

record recommendations =
  structure' :: "string option"
  material :: "string option"

text \<open>The field \<^verbatim>\<open>structure\<close> is written \<open>structure'\<close>: the plain word is reserved.\<close>

text \<open>
  Every read of \<^verbatim>\<open>params\<close> in the component is \<^verbatim>\<open>params?.field\<close>, so a
  null \<^verbatim>\<open>params\<close> behaves as the empty object, which is the record with every
  field \<open>None\<close> (the Dashboard passes \<^verbatim>\<open>result || {}\<close>).
\<close>

record params =
  p_geometry_params :: "geometry_params option"
  p_profile :: "profile option"
  p_recommendations :: "recommendations option"

definition empty_geometry_params :: geometry_params where
  "empty_geometry_params = \<lparr>type = None, height = None, taper = None, twist = None\<rparr>"

definition empty_params :: params where
  "empty_params = \<lparr>p_geometry_params = None, p_profile = None, p_recommendations = None\<rparr>"

text \<open>\<^verbatim>\<open>v || d\<close> on a number: \<open>undefined\<close> and \<open>0\<close> are falsy.\<close>

definition num_or :: "real option \<Rightarrow> real \<Rightarrow> real" where
  "num_or v d = (case v of None \<Rightarrow> d | Some x \<Rightarrow> if x = 0 then d else x)"

text \<open>\<^verbatim>\<open>v || d\<close> on a string: \<open>undefined\<close> and the empty string are falsy.\<close>

definition str_or :: "string option \<Rightarrow> string \<Rightarrow> string" where
  "str_or v d = (case v of None \<Rightarrow> d | Some s \<Rightarrow> if s = [] then d else s)"

text \<open>\<^verbatim>\<open>const geoParams = params?.geometry_params || {}\<close>\<close>

definition geoParams :: "params \<Rightarrow> geometry_params" where
  "geoParams p = (case p_geometry_params p of None \<Rightarrow> empty_geometry_params | Some g \<Rightarrow> g)"

definition height_of :: "params \<Rightarrow> real" where
  "height_of p = num_or (height (geoParams p)) 300"

definition floorCount :: nat where
  "floorCount = 30"

definition floorHeight :: real where
  "floorHeight = 1.2"

definition taperRatio :: "params \<Rightarrow> real" where
  "taperRatio p = num_or (taper (geoParams p)) 1.0"

definition twistTotal :: "params \<Rightarrow> real" where
  "twistTotal p = num_or (twist (geoParams p)) 0 * (pi / 180)"

definition seismicPGA :: "params \<Rightarrow> real" where
  "seismicPGA p =
     (if opt_includes (Option.bind (p_profile p) seismic_zone) ''High'' then 0.05 else 0.02)"

definition floodRisk :: "params \<Rightarrow> real" where
  "floodRisk p =
     (if opt_includes (Option.bind (p_profile p) flood_risk) ''High'' then 15 else 5)"

subsection \<open>Style resolution\<close>

text \<open>\<^verbatim>\<open>params?.recommendations?.material?.toLowerCase() || ""\<close>\<close>

definition materialRec :: "params \<Rightarrow> string" where
  "materialRec p =
     str_or (map_option toLowerCase (Option.bind (p_recommendations p) material)) ''''"

definition structureRec :: "params \<Rightarrow> string" where
  "structureRec p =
     str_or (map_option toLowerCase (Option.bind (p_recommendations p) structure')) ''''"

record material_style =
  color :: string
  roughness :: real
  metalness :: real
  name :: string
  emissive :: "string option"
  emissiveIntensity :: "real option"

text \<open>The chain of \<^verbatim>\<open>if (...) return {...}\<close> of the source, in its order.\<close>

definition materialStyle :: "string \<Rightarrow> material_style" where
  "materialStyle materialRec0 =
     (let mat = toLowerCase materialRec0 in
      if str_includes mat ''living'' \<or> str_includes mat ''moss'' \<or> str_includes mat ''forest''
         \<or> str_includes mat ''algae'' \<or> str_includes mat ''bio'' \<or> str_includes mat ''timber''
         \<or> str_includes mat ''bamboo''
      then \<lparr>color = ''#166534'', roughness = 1.0, metalness = 0.1,
            name = ''Eco-Resilient Bio-Skin'', emissive = Some ''#064e3b'',
            emissiveIntensity = Some 0.2\<rparr>
      else if str_includes mat ''carbon'' \<or> str_includes mat ''graphene''
         \<or> str_includes mat ''titanium'' \<or> str_includes mat ''alloy'' \<or> str_includes mat ''fiber''
      then \<lparr>color = ''#1e293b'', roughness = 0.2, metalness = 0.8,
            name = ''Advanced Composite Alloy'', emissive = Some ''#0f172a'',
            emissiveIntensity = Some 0.1\<rparr>
      else if str_includes mat ''smart'' \<or> str_includes mat ''kinetic''
         \<or> str_includes mat ''memory'' \<or> str_includes mat ''nanopolymer''
         \<or> str_includes mat ''self-healing''
      then \<lparr>color = ''#4f46e5'', roughness = 0.1, metalness = 0.9,
            name = ''Smart Nano-Structure'', emissive = Some ''#312e81'',
            emissiveIntensity = Some 0.4\<rparr>
      else if str_includes mat ''concrete'' \<or> str_includes mat ''uhpc''
         \<or> str_includes mat ''geopolymer'' \<or> str_includes mat ''ceramic''
      then \<lparr>color = ''#94a3b8'', roughness = 0.7, metalness = 0.2,
            name = ''UHPC Geopolymer'', emissive = None, emissiveIntensity = None\<rparr>
      else \<lparr>color = ''#64748b'', roughness = 0.3, metalness = 0.7,
            name = ''Resilient Hybrid Composite'', emissive = None,
            emissiveIntensity = None\<rparr>)"

definition hasDiagrid :: "params \<Rightarrow> bool" where
  "hasDiagrid p = (str_includes (structureRec p) ''diagrid''
     \<or> str_includes (structureRec p) ''exoskeleton'' \<or> str_includes (structureRec p) ''helical'')"

definition hasThickColumns :: "params \<Rightarrow> bool" where
  "hasThickColumns p = (str_includes (structureRec p) ''tube''
     \<or> str_includes (structureRec p) ''mega'' \<or> str_includes (structureRec p) ''buttressed'')"

definition hasOutriggers :: "params \<Rightarrow> bool" where
  "hasOutriggers p = (str_includes (structureRec p) ''outrigger''
     \<or> str_includes (structureRec p) ''belt'')"

subsection \<open>Floor generation\<close>

text \<open>
  One element of the array \<^verbatim>\<open>floors\<close>; the fields \<^verbatim>\<open>y, scale, rotation, id,
  isDiagridNode\<close> of the source carry the prefix \<open>fl_\<close>.
\<close>

record floor =
  fl_y :: real
  fl_scale :: real
  fl_rotation :: real
  fl_id :: nat
  fl_isDiagridNode :: bool

definition mk_floor :: "real \<Rightarrow> real \<Rightarrow> nat \<Rightarrow> floor" where
  "mk_floor taperRatio0 twistTotal0 i =
     (let progress = real i / real floorCount;
          currentScale = 1.0 - (1.0 - taperRatio0) * progress;
          currentRotation = twistTotal0 * progress
      in \<lparr>fl_y = real i * floorHeight * 2.5, fl_scale = currentScale,
          fl_rotation = currentRotation, fl_id = i, fl_isDiagridNode = (i mod 4 = 0)\<rparr>)"

text \<open>\<^verbatim>\<open>Array.from({ length: floorCount }).map((_, i) => ...)\<close>\<close>

definition floors :: "real \<Rightarrow> real \<Rightarrow> floor list" where
  "floors taperRatio0 twistTotal0 = map (mk_floor taperRatio0 twistTotal0) [0..<floorCount]"

subsection \<open>The scene graph\<close>

text \<open>
  A \<^verbatim>\<open><mesh>\<close> is its position, its rotation, its geometry children and its
  material. Of a material the props that the component sets are kept (a prop that is
  not set is \<open>None\<close>); the constant props \<^verbatim>\<open>side, transparent, thickness,
  castShadow, receiveShadow\<close> and the React keys are left out.
\<close>

type_synonym vec3 = "real \<times> real \<times> real"

record plane =
  pl_normal :: vec3
  pl_constant :: real

datatype geometry =
    CylinderGeometry real real real nat
  | BoxGeometry real real real
  | PlaneGeometry real real

record mesh_material =
  mat_color :: string
  mat_metalness :: "real option"
  mat_roughness :: "real option"
  mat_emissive :: "string option"
  mat_emissiveIntensity :: "real option"
  mat_opacity :: "real option"
  mat_transmission :: "real option"
  mat_clippingPlanes :: "plane list option"

record mesh =
  m_position :: vec3
  m_rotation :: vec3
  m_geometry :: "geometry list"
  m_material :: mesh_material

record label =
  l_position :: vec3
  l_text :: string

definition plain_material :: "string \<Rightarrow> mesh_material" where
  "plain_material c = \<lparr>mat_color = c, mat_metalness = None, mat_roughness = None,
     mat_emissive = None, mat_emissiveIntensity = None, mat_opacity = None,
     mat_transmission = None, mat_clippingPlanes = None\<rparr>"

text \<open>
  \<^verbatim>\<open>useMemo(() => { if (!isCutaway) return []; ... return [plane]; }, [isCutaway])\<close>
\<close>

definition clipPlanes :: "bool \<Rightarrow> plane list" where
  "clipPlanes isCutaway =
     (if \<not> isCutaway then [] else [\<lparr>pl_normal = (- 1, 0, 0), pl_constant = 0\<rparr>])"

definition is_fire :: "string option \<Rightarrow> bool" where
  "is_fire simulationMode = (simulationMode = Some ''fire'')"

definition fireEmissive :: "string option \<Rightarrow> material_style \<Rightarrow> string" where
  "fireEmissive simulationMode ms =
     (if is_fire simulationMode then ''#ef4444'' else str_or (emissive ms) ''#000000'')"

definition fireIntensity :: "string option \<Rightarrow> material_style \<Rightarrow> real" where
  "fireIntensity simulationMode ms =
     (if is_fire simulationMode then 2.0 else num_or (emissiveIntensity ms) 0)"

text \<open>
  The six-way choice of the geometry child, which the source writes out for each of the
  five per-floor layers (slab, inner material ring, insulation ring, mechanical block,
  facade) with other constants: \<open>r\<close> the radius of the round, hexagonal and prism
  profiles, \<open>rt\<close> that of the triangle and pyramid profiles, \<open>h\<close> the thickness and
  \<open>w\<close> the side of the box. Each line is one \<^verbatim>\<open>{geoParams.type === ... && <...Geometry/>}\<close>.
\<close>

definition layerGeometry ::
  "string option \<Rightarrow> real \<Rightarrow> real \<Rightarrow> real \<Rightarrow> real \<Rightarrow> real \<Rightarrow> geometry list" where
  "layerGeometry ty s r rt h w =
     (if ty = Some ''cylinder'' then [CylinderGeometry (r * s) (r * s) h 32] else [])
   @ (if ty = Some ''hexagon'' then [CylinderGeometry (r * s) (r * s) h 6] else [])
   @ (if ty = Some ''triangle'' then [CylinderGeometry (rt * s) (rt * s) h 3] else [])
   @ (if ty = Some ''pyramid'' then [CylinderGeometry 0 (rt * s) h 4] else [])
   @ (if ty = Some ''prism'' then [CylinderGeometry (r * s) (r * s) h 3] else [])
   @ (if ty = Some ''box'' \<or> ty = Some ''tapered'' \<or> ty = Some ''twisted''
      then [BoxGeometry w h w] else [])"

definition floorSlab :: "params \<Rightarrow> bool \<Rightarrow> string option \<Rightarrow> floor \<Rightarrow> mesh" where
  "floorSlab p isCutaway simulationMode fl =
     (let ms = materialStyle (materialRec p) in
      \<lparr>m_position = (0, 0, 0), m_rotation = (0, 0, 0),
       m_geometry = layerGeometry (type (geoParams p)) (fl_scale fl) 5 6 0.5 10,
       m_material = (plain_material (color ms))
         \<lparr>mat_metalness := Some (metalness ms), mat_roughness := Some (roughness ms),
          mat_clippingPlanes := Some (clipPlanes isCutaway),
          mat_emissive := Some (fireEmissive simulationMode ms),
          mat_emissiveIntensity := Some (fireIntensity simulationMode ms)\<rparr>\<rparr>)"

definition ribs :: "bool \<Rightarrow> mesh list" where
  "ribs isCutaway =
     map (\<lambda>angle. \<lparr>m_position = (0, 0, 0), m_rotation = (0, angle * (pi / 180), 0),
            m_geometry = [BoxGeometry 4.5 0.3 0.2],
            m_material = (plain_material ''#475569'')
              \<lparr>mat_metalness := Some 0.7, mat_roughness := Some 0.3,
               mat_clippingPlanes := Some (clipPlanes isCutaway)\<rparr>\<rparr>)
         [0, 90, 180, 270]"

definition layerColor :: "params \<Rightarrow> string" where
  "layerColor p =
     (let mat = materialRec p in
      if str_includes mat ''self-healing'' \<or> str_includes mat ''graphene''
         \<or> str_includes mat ''nanopolymer'' then ''#818cf8''
      else if str_includes mat ''living'' \<or> str_includes mat ''bio''
         \<or> str_includes mat ''timber'' then ''#22c55e''
      else color (materialStyle (materialRec p)))"

definition innerLayer :: "params \<Rightarrow> bool \<Rightarrow> floor \<Rightarrow> mesh" where
  "innerLayer p isCutaway fl =
     \<lparr>m_position = (0, 0.8, 0), m_rotation = (0, 0, 0),
      m_geometry = layerGeometry (type (geoParams p)) (fl_scale fl) 4.2 5.0 0.15 9.0,
      m_material = (plain_material (layerColor p))
        \<lparr>mat_opacity := Some 0.5, mat_emissive := emissive (materialStyle (materialRec p)),
         mat_emissiveIntensity := Some 0.2,
         mat_clippingPlanes := Some (clipPlanes isCutaway)\<rparr>\<rparr>"

definition insulation :: "params \<Rightarrow> bool \<Rightarrow> floor \<Rightarrow> nat \<Rightarrow> mesh list" where
  "insulation p isCutaway fl i =
     (if i mod 3 = 0
      then [\<lparr>m_position = (0, 1.2, 0), m_rotation = (0, 0, 0),
             m_geometry = layerGeometry (type (geoParams p)) (fl_scale fl) 4.5 5.3 0.08 9.5,
             m_material = (plain_material ''#fbbf24'')
               \<lparr>mat_opacity := Some 0.3,
                mat_clippingPlanes := Some (clipPlanes isCutaway)\<rparr>\<rparr>]
      else [])"

definition upper_char :: "char \<Rightarrow> char" where
  "upper_char c =
     (let n = (of_char c :: nat) in if 97 \<le> n \<and> n \<le> 122 then char_of (n - 32) else c)"

definition toUpperCase :: "string \<Rightarrow> string" where
  "toUpperCase s = map upper_char s"

text \<open>
  The four \<^verbatim>\<open><Html>\<close> callouts of floor 15, with their positions inside their group (the
  group itself sits at \<^verbatim>\<open>[0, 2, 0]\<close>) and their texts.
\<close>

definition xrayLabels :: "params \<Rightarrow> nat \<Rightarrow> label list" where
  "xrayLabels p i =
     (if i = 15
      then [\<lparr>l_position = (- 3, 0, 0),
              l_text = ''CORE RIBS: '' @ (if str_includes (structureRec p) ''steel''
                         then ''STEEL'' else ''REINFORCED CONCRETE'')\<rparr>,
            \<lparr>l_position = (0, 0.8, - 4),
              l_text = ''MATERIAL CORE: '' @ toUpperCase (name (materialStyle (materialRec p)))\<rparr>,
            \<lparr>l_position = (3, 1.5, 0), l_text = ''ACTIVE INSULATION / DAMPING''\<rparr>,
            \<lparr>l_position = (0, 1, 6), l_text = ''ADAPTIVE FACADE SKIN''\<rparr>]
      else [])"

text \<open>The group under \<^verbatim>\<open>{isCutaway && (...)}\<close>.\<close>

record xray_group =
  xr_ribs :: "mesh list"
  xr_inner :: mesh
  xr_insulation :: "mesh list"
  xr_labels :: "label list"

definition xrayGroup :: "params \<Rightarrow> bool \<Rightarrow> floor \<Rightarrow> nat \<Rightarrow> xray_group list" where
  "xrayGroup p isCutaway fl i =
     (if isCutaway
      then [\<lparr>xr_ribs = ribs isCutaway, xr_inner = innerLayer p isCutaway fl,
             xr_insulation = insulation p isCutaway fl i, xr_labels = xrayLabels p i\<rparr>]
      else [])"

definition balconies :: "params \<Rightarrow> bool \<Rightarrow> floor \<Rightarrow> nat \<Rightarrow> mesh list" where
  "balconies p isCutaway fl i =
     (if \<not> isCutaway \<and> i mod 5 = 0 \<and> i > 0
      then map (\<lambda>angle.
             let ty = type (geoParams p);
                 radius = (if ty = Some ''cylinder'' \<or> ty = Some ''prism'' then 5.2 * fl_scale fl
                           else if ty = Some ''hexagon'' then 5.2 * fl_scale fl
                           else if ty = Some ''triangle'' \<or> ty = Some ''pyramid''
                           then 6.2 * fl_scale fl else 5.5);
                 angleRad = (angle * pi) / 180;
                 x = cos angleRad * radius;
                 z = sin angleRad * radius
             in \<lparr>m_position = (x, 1, z), m_rotation = (0, angleRad, 0),
                 m_geometry = [BoxGeometry 2 0.1 1.5],
                 m_material = (plain_material ''#94a3b8'')
                   \<lparr>mat_metalness := Some 0.6, mat_roughness := Some 0.4\<rparr>\<rparr>)
           [0, 90, 180, 270]
      else [])"

definition mechanicalFloor :: "params \<Rightarrow> bool \<Rightarrow> floor \<Rightarrow> nat \<Rightarrow> mesh list" where
  "mechanicalFloor p isCutaway fl i =
     (if i mod 15 = 0 \<and> i > 0
      then [\<lparr>m_position = (0, 1.5, 0), m_rotation = (0, 0, 0),
             m_geometry = layerGeometry (type (geoParams p)) (fl_scale fl) 4.8 5.8 0.8 9.8,
             m_material = (plain_material ''#334155'')
               \<lparr>mat_metalness := Some 0.8, mat_roughness := Some 0.2,
                mat_clippingPlanes := Some (clipPlanes isCutaway)\<rparr>\<rparr>]
      else [])"

definition facade :: "params \<Rightarrow> bool \<Rightarrow> string option \<Rightarrow> floor \<Rightarrow> mesh" where
  "facade p isCutaway simulationMode fl =
     (let ms = materialStyle (materialRec p) in
      \<lparr>m_position = (0, 1, 0), m_rotation = (0, 0, 0),
       m_geometry = layerGeometry (type (geoParams p)) (fl_scale fl) 4.9 5.8 2 9.8,
       m_material = (plain_material (if is_fire simulationMode then ''#fca5a5'' else color ms))
         \<lparr>mat_transmission := Some (if isCutaway then 0.8 else 0.4),
          mat_opacity := Some (if is_fire simulationMode then 0.3
                               else if isCutaway then 0.2 else 0.7),
          mat_roughness := Some 0.1,
          mat_clippingPlanes := Some (clipPlanes isCutaway),
          mat_emissive := Some (fireEmissive simulationMode ms),
          mat_emissiveIntensity := Some (fireIntensity simulationMode ms * 0.2)\<rparr>\<rparr>)"

definition windowFrames :: "params \<Rightarrow> bool \<Rightarrow> floor \<Rightarrow> nat \<Rightarrow> mesh list" where
  "windowFrames p isCutaway fl i =
     (if \<not> isCutaway \<and> i mod 2 = 0
      then (let ty = type (geoParams p);
                windSpeed = num_or (Option.bind (p_profile p) max_wind_speed) 30;
                baseSegments = (if ty = Some ''cylinder'' then 12
                                else if ty = Some ''hexagon'' then 6
                                else if ty = Some ''triangle'' \<or> ty = Some ''prism'' then 3
                                else 4 :: nat);
                segments = (if windSpeed > 100 then baseSegments * 2
                            else if windSpeed > 70 then nat \<lfloor>real baseSegments * 1.5\<rfloor>
                            else baseSegments);
                radius = 5.0 * fl_scale fl
            in map (\<lambda>j. let angle = (real j / real segments) * pi * 2;
                             x = cos angle * radius;
                             z = sin angle * radius
                         in \<lparr>m_position = (x, 1, z), m_rotation = (0, angle, 0),
                             m_geometry = [BoxGeometry 0.1 1.8 0.1],
                             m_material = (plain_material ''#1e293b'')
                               \<lparr>mat_metalness := Some 0.9\<rparr>\<rparr>)
                   [0..<segments])
      else [])"

subsection \<open>The structural overlay\<close>

text \<open>The positions of the columns of one floor (\<^verbatim>\<open>colPositions\<close>), by archetype.\<close>

definition colPositions :: "string option \<Rightarrow> real \<Rightarrow> (real \<times> real) list" where
  "colPositions ty s =
     (let radius = 4.5 * s in
      if ty = Some ''cylinder''
      then map (\<lambda>j. let angle = (real j / 8) * pi * 2
                    in (cos angle * radius, sin angle * radius)) [0..<8]
      else if ty = Some ''hexagon''
      then map (\<lambda>j. let angle = (real j / 6) * pi * 2
                    in (cos angle * radius, sin angle * radius)) [0..<6]
      else if ty = Some ''triangle''
      then map (\<lambda>j. let angle = (real j / 3) * pi * 2 + (pi / 6)
                    in (cos angle * (radius * 1.2), sin angle * (radius * 1.2))) [0..<3]
      else if ty = Some ''pyramid''
      then [(4.5 * s, 4.5 * s), (- 4.5 * s, 4.5 * s), (4.5 * s, - 4.5 * s),
            (- 4.5 * s, - 4.5 * s)]
      else if ty = Some ''prism''
      then map (\<lambda>j. let angle = (real j / 3) * pi * 2
                    in (cos angle * radius, sin angle * radius)) [0..<3]
      else [(4.5, 4.5), (- 4.5, 4.5), (4.5, - 4.5), (- 4.5, - 4.5)])"

text \<open>The three column styles; \<open>idx\<close> is the index of the position in \<^verbatim>\<open>colPositions\<close>.\<close>

definition diagridNode :: "bool \<Rightarrow> nat \<Rightarrow> real \<times> real \<Rightarrow> mesh" where
  "diagridNode isCutaway idx pos =
     \<lparr>m_position = (fst pos, 1, snd pos),
      m_rotation = (0, 0, (if idx mod 2 = 0 then pi / 4 else - pi / 4)),
      m_geometry = [CylinderGeometry 0.2 0.2 5 4],
      m_material = (plain_material ''#0f172a'')
        \<lparr>mat_metalness := Some 0.8, mat_roughness := Some 0.2,
         mat_clippingPlanes := Some (clipPlanes isCutaway)\<rparr>\<rparr>"

definition megaColumn :: "bool \<Rightarrow> real \<times> real \<Rightarrow> mesh" where
  "megaColumn isCutaway pos =
     \<lparr>m_position = (fst pos, 1, snd pos), m_rotation = (0, 0, 0),
      m_geometry = [CylinderGeometry 0.6 0.6 2 8],
      m_material = (plain_material ''#334155'')
        \<lparr>mat_clippingPlanes := Some (clipPlanes isCutaway)\<rparr>\<rparr>"

definition stdColumn :: "bool \<Rightarrow> real \<times> real \<Rightarrow> mesh" where
  "stdColumn isCutaway pos =
     \<lparr>m_position = (fst pos, 1, snd pos), m_rotation = (0, 0, 0),
      m_geometry = [CylinderGeometry 0.25 0.25 2 8],
      m_material = (plain_material ''#334155'')
        \<lparr>mat_clippingPlanes := Some (clipPlanes isCutaway)\<rparr>\<rparr>"

text \<open>\<^verbatim>\<open>hasDiagrid ? (...) : hasThickColumns ? (...) : (...)\<close>\<close>

definition columns :: "params \<Rightarrow> bool \<Rightarrow> floor \<Rightarrow> mesh list" where
  "columns p isCutaway fl =
     (let cps = colPositions (type (geoParams p)) (fl_scale fl) in
      if hasDiagrid p
      then map (\<lambda>(idx, pos). diagridNode isCutaway idx pos) (enumerate 0 cps)
      else if hasThickColumns p
      then map (\<lambda>(idx, pos). megaColumn isCutaway pos) (enumerate 0 cps)
      else map (\<lambda>(idx, pos). stdColumn isCutaway pos) (enumerate 0 cps))"

definition outriggerBelt :: "params \<Rightarrow> bool \<Rightarrow> floor \<Rightarrow> mesh" where
  "outriggerBelt p isCutaway fl =
     (let ty = type (geoParams p); radius = 4.5 * fl_scale fl in
      \<lparr>m_position = (0, 0.5, 0), m_rotation = (0, 0, 0),
       m_geometry =
         [if ty = Some ''cylinder'' \<or> ty = Some ''hexagon'' \<or> ty = Some ''prism''
          then CylinderGeometry (radius + 0.5) (radius + 0.5) 0.8
                 (if ty = Some ''cylinder'' then 32 else if ty = Some ''hexagon'' then 6 else 3)
          else if ty = Some ''pyramid''
          then CylinderGeometry 0.5 (radius + 0.5) 0.8 4
          else BoxGeometry 10.2 0.8 10.2],
       m_material = (plain_material ''#ef4444'')
         \<lparr>mat_emissive := Some ''#7f1d1d'', mat_emissiveIntensity := Some 0.5,
          mat_clippingPlanes := Some (clipPlanes isCutaway)\<rparr>\<rparr>)"

text \<open>\<^verbatim>\<open>{hasOutriggers && (i % 10 === 0) && (<mesh .../>)}\<close>\<close>

definition outriggers :: "params \<Rightarrow> bool \<Rightarrow> floor \<Rightarrow> nat \<Rightarrow> mesh list" where
  "outriggers p isCutaway fl i =
     (if hasOutriggers p \<and> i mod 10 = 0 then [outriggerBelt p isCutaway fl] else [])"

subsection \<open>One floor, and the whole building\<close>

record floor_group =
  fg_position :: vec3
  fg_rotation :: vec3
  fg_scale :: vec3
  fg_slab :: mesh
  fg_xray :: "xray_group list"
  fg_balconies :: "mesh list"
  fg_mechanical :: "mesh list"
  fg_facade :: mesh
  fg_windowFrames :: "mesh list"
  fg_columns :: "mesh list"
  fg_outriggers :: "mesh list"

text \<open>The body of \<^verbatim>\<open>floors.map((floor, i) => (<group ...> ... </group>))\<close>.\<close>

definition floorGroup :: "params \<Rightarrow> bool \<Rightarrow> string option \<Rightarrow> floor \<Rightarrow> nat \<Rightarrow> floor_group" where
  "floorGroup p isCutaway simulationMode fl i =
     \<lparr>fg_position = (0, fl_y fl, 0),
      fg_rotation = (0, fl_rotation fl, 0),
      fg_scale = (fl_scale fl, 1, fl_scale fl),
      fg_slab = floorSlab p isCutaway simulationMode fl,
      fg_xray = xrayGroup p isCutaway fl i,
      fg_balconies = balconies p isCutaway fl i,
      fg_mechanical = mechanicalFloor p isCutaway fl i,
      fg_facade = facade p isCutaway simulationMode fl,
      fg_windowFrames = windowFrames p isCutaway fl i,
      fg_columns = columns p isCutaway fl,
      fg_outriggers = outriggers p isCutaway fl i\<rparr>"

definition floodPlane :: mesh where
  "floodPlane =
     \<lparr>m_position = (0, - 5, 0), m_rotation = (- pi / 2, 0, 0),
      m_geometry = [PlaneGeometry 1000 1000],
      m_material = (plain_material ''#3b82f6'')
        \<lparr>mat_transmission := Some 0.9, mat_opacity := Some 0, mat_roughness := Some 0.05\<rparr>\<rparr>"

definition podium :: "params \<Rightarrow> bool \<Rightarrow> mesh" where
  "podium p isCutaway =
     (let ty = type (geoParams p) in
      \<lparr>m_position = (0, - 2, 0), m_rotation = (0, 0, 0),
       m_geometry = [CylinderGeometry (if ty = Some ''pyramid'' then 8 else 6.5)
                       (if ty = Some ''pyramid'' then 10 else 8) 4
                       (if ty = Some ''cylinder'' then 32
                        else if ty = Some ''hexagon'' then 6 else 4)],
       m_material = (plain_material (if floodRisk p > 10 then ''#cbd5e1'' else ''#475569''))
         \<lparr>mat_roughness := Some 0.9,
          mat_clippingPlanes := Some (clipPlanes isCutaway)\<rparr>\<rparr>)"

definition pilings :: "params \<Rightarrow> bool \<Rightarrow> mesh list" where
  "pilings p isCutaway =
     (if floodRisk p > 10 \<or> seismicPGA p > 0.04
      then map (\<lambda>angle.
             \<lparr>m_position = (cos (angle * pi / 180) * 4, - 6, sin (angle * pi / 180) * 4),
              m_rotation = (0, 0, 0),
              m_geometry = [CylinderGeometry 0.8 0.8 8 8],
              m_material = (plain_material ''#334155'')
                \<lparr>mat_clippingPlanes := Some (clipPlanes isCutaway)\<rparr>\<rparr>)
           [0, 120, 240]
      else [])"

definition centralCore :: "bool \<Rightarrow> string option \<Rightarrow> mesh" where
  "centralCore isCutaway simulationMode =
     \<lparr>m_position = (0, (real floorCount * floorHeight * 2.5) / 2, 0), m_rotation = (0, 0, 0),
      m_geometry = [CylinderGeometry 1.5 1.5 (real floorCount * floorHeight * 2.5) 8],
      m_material = (plain_material (if is_fire simulationMode then ''#7f1d1d'' else ''#475569''))
        \<lparr>mat_roughness := Some 0.8,
         mat_clippingPlanes := Some (clipPlanes isCutaway),
         mat_emissive := Some (if is_fire simulationMode then ''#ef4444'' else ''#000000''),
         mat_emissiveIntensity := Some (if is_fire simulationMode then 0.5 else 0)\<rparr>\<rparr>"

text \<open>The dark plane over the cut: \<^verbatim>\<open>{isCutaway && (<mesh .../>)}\<close>.\<close>

definition cutFace :: "params \<Rightarrow> bool \<Rightarrow> mesh list" where
  "cutFace p isCutaway =
     (if isCutaway
      then [\<lparr>m_position = (- 0.05, height_of p / 25, 0), m_rotation = (0, pi / 2, 0),
             m_geometry = [PlaneGeometry (height_of p / 5) (height_of p / 5)],
             m_material = (plain_material ''#020617'') \<lparr>mat_opacity := Some 0.6\<rparr>\<rparr>]
      else [])"

text \<open>
  The returned tree: the flood plane, and the group of the building (at the constant
  position \<^verbatim>\<open>[0, -15, 0]\<close>) with the podium, the pilings, the core, one group per floor
  and the cut face.
\<close>

record scene =
  sc_floodPlane :: mesh
  sc_podium :: mesh
  sc_pilings :: "mesh list"
  sc_core :: mesh
  sc_floorGroups :: "floor_group list"
  sc_cutFace :: "mesh list"

text \<open>
  What one render of the component computes: the memoised values and the returned
  scene. The array index \<open>i\<close> of \<^verbatim>\<open>floors.map((floor, i) => ...)\<close> is paired with
  each floor by \<open>enumerate\<close>.
\<close>

record building =
  b_clipPlanes :: "plane list"
  b_materialStyle :: material_style
  b_floors :: "floor list"
  b_scene :: scene

definition DetailedBuilding :: "params \<Rightarrow> bool \<Rightarrow> string option \<Rightarrow> building" where
  "DetailedBuilding p isCutaway simulationMode =
     (let fls = floors (taperRatio p) (twistTotal p) in
      \<lparr>b_clipPlanes = clipPlanes isCutaway,
       b_materialStyle = materialStyle (materialRec p),
       b_floors = fls,
       b_scene =
         \<lparr>sc_floodPlane = floodPlane,
          sc_podium = podium p isCutaway,
          sc_pilings = pilings p isCutaway,
          sc_core = centralCore isCutaway simulationMode,
          sc_floorGroups =
            map (\<lambda>(i, fl). floorGroup p isCutaway simulationMode fl i) (enumerate 0 fls),
          sc_cutFace = cutFace p isCutaway\<rparr>\<rparr>)"

subsection \<open>The per-frame update\<close>

text \<open>
  \<^verbatim>\<open>THREE.MathUtils.lerp\<close> belongs to the three.js library, which defines it as
  \<^verbatim>\<open>function lerp( x, y, t ) { return ( 1 - t ) * x + t * y; }\<close>.
\<close>

definition lerp :: "real \<Rightarrow> real \<Rightarrow> real \<Rightarrow> real" where
  "lerp x y t = (1 - t) * x + t * y"

text \<open>
  The two objects that the callback of \<^verbatim>\<open>useFrame\<close> mutates through refs: the rotation
  of the building group and the height and opacity of the water plane. A ref whose
  \<^verbatim>\<open>current\<close> is not yet set is \<open>None\<close>.
\<close>

record group_obj =
  rot_x :: real
  rot_y :: real
  rot_z :: real

record water_obj =
  pos_y :: real
  opacity :: real

record refs =
  groupRef :: "group_obj option"
  waterRef :: "water_obj option"

text \<open>
  The state right after mounting: the group is not rotated, the water plane is at
  \<^verbatim>\<open>position={[0, -5, 0]}\<close> with \<^verbatim>\<open>opacity={0}\<close>.
\<close>

definition mounted :: refs where
  "mounted = \<lparr>groupRef = Some \<lparr>rot_x = 0, rot_y = 0, rot_z = 0\<rparr>,
              waterRef = Some \<lparr>pos_y = - 5, opacity = 0\<rparr>\<rparr>"

text \<open>\<^verbatim>\<open>!simulationMode\<close>: null and the empty string are falsy.\<close>

definition no_simulation :: "string option \<Rightarrow> bool" where
  "no_simulation simulationMode = (simulationMode = None \<or> simulationMode = Some [])"

text \<open>
  The callback of \<^verbatim>\<open>useFrame\<close>; \<open>time\<close> is \<^verbatim>\<open>state.clock.getElapsedTime()\<close>. Its
  three steps run in the source's order; each \<^verbatim>\<open>&& ref.current\<close> is the \<open>None\<close> case
  of \<open>map_option\<close>.
\<close>

definition baseRotation :: "bool \<Rightarrow> string option \<Rightarrow> group_obj \<Rightarrow> group_obj" where
  "baseRotation isCutaway simulationMode g =
     (if no_simulation simulationMode \<and> \<not> isCutaway then g\<lparr>rot_y := rot_y g + 0.002\<rparr> else g)"

definition seismicStep :: "params \<Rightarrow> bool \<Rightarrow> string option \<Rightarrow> real \<Rightarrow> group_obj \<Rightarrow> group_obj" where
  "seismicStep p isCutaway simulationMode time g =
     (if simulationMode = Some ''quake''
      then (let swayX = sin (time * 5) * seismicPGA p * 2;
                swayZ = cos (time * 4) * seismicPGA p * 2;
                twist0 = sin (time * 8) * (seismicPGA p / 2);
                g1 = g\<lparr>rot_z := swayX\<rparr>;
                g2 = g1\<lparr>rot_x := swayZ\<rparr>
            in if \<not> isCutaway then g2\<lparr>rot_y := rot_y g2 + twist0\<rparr> else g2)
      else g\<lparr>rot_z := lerp (rot_z g) 0 0.1, rot_x := lerp (rot_x g) 0 0.1\<rparr>)"

definition floodStep :: "params \<Rightarrow> string option \<Rightarrow> water_obj \<Rightarrow> water_obj" where
  "floodStep p simulationMode w =
     (if simulationMode = Some ''flood''
      then (let targetHeight = floodRisk p in
            w\<lparr>pos_y := lerp (pos_y w) (targetHeight / 2) 0.02,
              opacity := lerp (opacity w) 0.8 0.02\<rparr>)
      else w\<lparr>pos_y := lerp (pos_y w) (- 5) 0.05, opacity := lerp (opacity w) 0 0.05\<rparr>)"

definition useFrame :: "params \<Rightarrow> bool \<Rightarrow> string option \<Rightarrow> real \<Rightarrow> refs \<Rightarrow> refs" where
  "useFrame p isCutaway simulationMode time r =
     \<lparr>groupRef = map_option (seismicStep p isCutaway simulationMode time)
                   (map_option (baseRotation isCutaway simulationMode) (groupRef r)),
      waterRef = map_option (floodStep p simulationMode) (waterRef r)\<rparr>"

text \<open>
  A run of the render loop: one entry per displayed frame, with the props of the
  component at that frame and the elapsed time of the clock.
\<close>

record frame_input =
  fi_isCutaway :: bool
  fi_simulationMode :: "string option"
  fi_time :: real

fun run_frames :: "params \<Rightarrow> frame_input list \<Rightarrow> refs \<Rightarrow> refs" where
  "run_frames p [] r = r"
| "run_frames p (f # fs) r =
     run_frames p fs (useFrame p (fi_isCutaway f) (fi_simulationMode f) (fi_time f) r)"

text \<open>The height of the water plane; \<open>None\<close> when the plane is not mounted.\<close>

definition water_height :: "refs \<Rightarrow> real option" where
  "water_height r = map_option pos_y (waterRef r)"

subsection \<open>The snapshot\<close>

text \<open>
  The document, in document order. A canvas is modelled by its method
  \<^verbatim>\<open>toDataURL\<close>, which the browser provides: from the MIME type to the data URL of
  the current drawing buffer.
\<close>

record canvas =
  toDataURL :: "string \<Rightarrow> string"

datatype dom_node = Canvas canvas | Element string

text \<open>\<^verbatim>\<open>document.querySelector('canvas')\<close>: the first canvas of the document, or null.\<close>

fun querySelector_canvas :: "dom_node list \<Rightarrow> canvas option" where
  "querySelector_canvas [] = None"
| "querySelector_canvas (Canvas c # ns) = Some c"
| "querySelector_canvas (Element t # ns) = querySelector_canvas ns"

text \<open>\<^verbatim>\<open>return canvas ? canvas.toDataURL('image/png') : null;\<close>\<close>

definition captureSnapshot :: "dom_node list \<Rightarrow> string option" where
  "captureSnapshot document =
     (case querySelector_canvas document of
        Some c \<Rightarrow> Some (toDataURL c ''image/png'')
      | None \<Rightarrow> None)"

subsection \<open>Inputs used in the examples\<close>

text \<open>The scenario \<^verbatim>\<open>{type:"cylinder", height:300, taper:0.6, twist:90}\<close>.\<close>

definition scenario_params :: params where
  "scenario_params = empty_params\<lparr>p_geometry_params :=
      Some \<lparr>type = Some ''cylinder'', height = Some 300, taper = Some 0.6, twist = Some 90\<rparr>\<rparr>"

text \<open>A result object of which only the material recommendation is set.\<close>

definition params_with_material :: "string \<Rightarrow> params" where
  "params_with_material m =
     empty_params\<lparr>p_recommendations := Some \<lparr>structure' = None, material = Some m\<rparr>\<rparr>"

text \<open>A frame during which the flood simulation is active, and one during which it is not.\<close>

definition flooding :: "frame_input \<Rightarrow> bool" where
  "flooding f = (fi_simulationMode f = Some ''flood'')"

definition receding :: "frame_input \<Rightarrow> bool" where
  "receding f = (fi_simulationMode f \<noteq> Some ''flood'')"

definition flood_frame :: "real \<Rightarrow> frame_input" where
  "flood_frame t = \<lparr>fi_isCutaway = False, fi_simulationMode = Some ''flood'', fi_time = t\<rparr>"

definition idle_frame :: "real \<Rightarrow> frame_input" where
  "idle_frame t = \<lparr>fi_isCutaway = False, fi_simulationMode = None, fi_time = t\<rparr>"

text \<open>The scenario \<^verbatim>\<open>"Diagrid Exoskeleton with Outrigger Belts"\<close>, on a box archetype.\<close>

definition scenario_structure_params :: params where
  "scenario_structure_params =
     empty_params\<lparr>p_geometry_params := Some (empty_geometry_params\<lparr>type := Some ''box''\<rparr>),
       p_recommendations := Some \<lparr>structure' = Some ''Diagrid Exoskeleton with Outrigger Belts'',
         material = None\<rparr>\<rparr>"

text \<open>A result object whose \<open>geometry_params\<close> is \<open>g\<close> with the height field set to \<open>h\<close>.\<close>

definition with_height :: "params \<Rightarrow> geometry_params \<Rightarrow> real option \<Rightarrow> params" where
  "with_height p g h = p\<lparr>p_geometry_params := Some (g\<lparr>height := h\<rparr>)\<rparr>"

text \<open>The archetypes for which the per-floor layers have a geometry child.\<close>

definition supported :: "string option \<Rightarrow> bool" where
  "supported ty = (ty \<in> {Some ''cylinder'', Some ''hexagon'', Some ''triangle'', Some ''pyramid'',
     Some ''prism'', Some ''box'', Some ''tapered'', Some ''twisted''})"

text \<open>A canvas whose encoder returns a fixed PNG data URL.\<close>

definition example_canvas :: canvas where
  "example_canvas = \<lparr>toDataURL = (\<lambda>mime. ''data:'' @ mime @ '';base64,iVBORw0KGgo='')\<rparr>"

subsection \<open>Views of the scene used to state what an input affects\<close>

text \<open>Where a mesh is and what it is made of, without its material.\<close>

definition shape :: "mesh \<Rightarrow> vec3 \<times> vec3 \<times> geometry list" where
  "shape x = (m_position x, m_rotation x, m_geometry x)"





section \<open>Properties\<close>

subsection \<open>What one render computes\<close>

lemma DetailedBuilding_floors:
  "b_floors (DetailedBuilding p c m) = floors (taperRatio p) (twistTotal p)"
  by (simp add: DetailedBuilding_def Let_def)

lemma DetailedBuilding_materialStyle:
  "b_materialStyle (DetailedBuilding p c m) = materialStyle (materialRec p)"
  by (simp add: DetailedBuilding_def Let_def)


lemma DetailedBuilding_floorGroups:
  "sc_floorGroups (b_scene (DetailedBuilding p c m)) =
     map (\<lambda>(i, fl). floorGroup p c m fl i) (enumerate 0 (floors (taperRatio p) (twistTotal p)))"
  by (simp add: DetailedBuilding_def Let_def)

lemma length_floors: "length (floors t w) = 30"
  by (simp add: floors_def floorCount_def)

lemma nth_floors: "i < 30 \<Longrightarrow> floors t w ! i = mk_floor t w i"
  by (simp add: floors_def floorCount_def)

lemma nth_floorGroups:
  "i < 30 \<Longrightarrow> sc_floorGroups (b_scene (DetailedBuilding p c m)) ! i =
     floorGroup p c m (mk_floor (taperRatio p) (twistTotal p) i) i"
  by (simp add: DetailedBuilding_floorGroups length_floors nth_floors nth_enumerate_eq)

lemma taperRatio_Some:
  "p_geometry_params p = Some g \<Longrightarrow> taper g = Some t \<Longrightarrow> t \<noteq> 0 \<Longrightarrow> taperRatio p = t"
  by (simp add: taperRatio_def geoParams_def num_or_def)

lemma taperRatio_le_1:
  "p_geometry_params p = Some g \<Longrightarrow> taper g = Some t \<Longrightarrow> t < 1 \<Longrightarrow> taperRatio p \<le> 1"
  by (simp add: taperRatio_def geoParams_def num_or_def)

lemma twistTotal_Some:
  "p_geometry_params p = Some g \<Longrightarrow> twist g = Some d \<Longrightarrow> twistTotal p = d * (pi / 180)"
  by (simp add: twistTotal_def geoParams_def num_or_def)

lemma floor_scale:
  "i < 30 \<Longrightarrow>
   fl_scale (b_floors (DetailedBuilding p c m) ! i) = 1 - (1 - taperRatio p) * (real i / 30)"
  by (simp add: DetailedBuilding_floors nth_floors mk_floor_def floorCount_def Let_def)

lemma floor_rotation:
  "i < 30 \<Longrightarrow>
   fl_rotation (b_floors (DetailedBuilding p c m) ! i) = twistTotal p * (real i / 30)"
  by (simp add: DetailedBuilding_floors nth_floors mk_floor_def floorCount_def Let_def)

subsection \<open>Bounds on \<open>pi\<close>, from the expansion of the sine at \<open>pi / 6\<close>\<close>

lemma sin_sum9:
  "(\<Sum>m<9. sin_coeff m * x ^ m) = x - x^3/6 + x^5/120 - x^7/5040" for x :: real
proof -
  have "{..<9::nat} = {0,1,2,3,4,5,6,7,8}" by auto
  then show ?thesis
    by (simp add: sin_coeff_def fact_numeral)
qed

lemma sin9:
  "\<bar>sin x - (x - x^3/6 + x^5/120 - x^7/5040)\<bar> \<le> \<bar>x\<bar>^9 / 362880" for x :: real
proof -
  have f: "inverse (fact 9 :: real) = 1 / 362880"
    by (simp add: fact_numeral)
  have "\<bar>sin x - (\<Sum>m<9. sin_coeff m * x ^ m)\<bar> \<le> inverse (fact 9) * \<bar>x\<bar> ^ 9"
    by (rule Maclaurin_sin_bound)
  then show ?thesis
    unfolding sin_sum9 f by simp
qed

lemma pi_lower: "3.1415 < pi"
proof -
  let ?x = "0.5235834 :: real"
  have "sin ?x \<le> (?x - ?x^3/6 + ?x^5/120 - ?x^7/5040) + \<bar>?x\<bar>^9 / 362880"
    using sin9[of ?x] by linarith
  also have "\<dots> < 1/2" by (simp add: power_numeral_reduce)
  finally have "sin ?x < sin (pi/6)" by (simp add: sin_30)
  moreover have "?x \<le> pi/2" using pi_ge_two by simp
  moreover have "- (pi/2) \<le> ?x" by (rule order_trans[of _ 0]) simp_all
  ultimately have "?x < pi/6"
    using sin_mono_less_eq[of ?x "pi/6"] pi_ge_zero by simp
  then show ?thesis by simp
qed

lemma pi_upper: "pi < 3.1417"
proof -
  let ?x = "0.52361 :: real"
  have "sin ?x \<ge> (?x - ?x^3/6 + ?x^5/120 - ?x^7/5040) - \<bar>?x\<bar>^9 / 362880"
    using sin9[of ?x] by linarith
  moreover have "(?x - ?x^3/6 + ?x^5/120 - ?x^7/5040) - \<bar>?x\<bar>^9 / 362880 > 1/2"
    by (simp add: power_numeral_reduce)
  ultimately have "sin (pi/6) < sin ?x" by (simp add: sin_30)
  moreover have "?x \<le> pi/2" using pi_ge_two by simp
  moreover have "- (pi/2) \<le> ?x" by (rule order_trans[of _ 0]) simp_all
  ultimately have "pi/6 < ?x"
    using sin_mono_less_eq[of "pi/6" ?x] pi_ge_zero by simp
  then show ?thesis by simp
qed

subsection \<open>The floor descriptors\<close>

lemma scenario_scale:
  "fl_scale (b_floors (DetailedBuilding scenario_params c m) ! 29) = 46/75"
  by (simp add: floor_scale taperRatio_Some[of _ _ "0.6"] scenario_params_def)

lemma scenario_rotation:
  "fl_rotation (b_floors (DetailedBuilding scenario_params c m) ! 29) = 29 * pi / 60"
  by (simp add: floor_rotation twistTotal_Some[of _ _ 90] scenario_params_def)

text \<open>
  Claim C3. For every floor index \<open>i\<close> below 30, the floor descriptor has
  \<open>scale = 1 - (1 - taper) * (i / 30)\<close> and \<open>rotation = (twist * pi / 180) * (i / 30)\<close>,
  where \<open>taper\<close> (non-zero, as the data model has it in \<open>(0, 1]\<close>) and \<open>twist\<close> are the
  fields of \<open>geometry_params\<close>. In the scenario
  \<^verbatim>\<open>{type:"cylinder", height:300, taper:0.6, twist:90}\<close> floor 29 has scale \<open>0.6133\<close> and
  rotation \<open>1.518\<close> radians, each to the last digit shown, and the rotation is 87 degrees.
\<close>

theorem floor_formulas:
  "(\<forall>(p::params) g t d i c m. p_geometry_params p = Some g \<longrightarrow> taper g = Some t \<longrightarrow> t \<noteq> 0 \<longrightarrow>
      twist g = Some d \<longrightarrow> i < 30 \<longrightarrow>
      length (b_floors (DetailedBuilding p c m)) = 30 \<and>
      fl_scale (b_floors (DetailedBuilding p c m) ! i) = 1 - (1 - t) * (real i / 30) \<and>
      fl_rotation (b_floors (DetailedBuilding p c m) ! i) = (d * pi / 180) * (real i / 30))
   \<and> (\<forall>c m. \<bar>fl_scale (b_floors (DetailedBuilding scenario_params c m) ! 29) - 0.6133\<bar> < 0.00005
        \<and> \<bar>fl_rotation (b_floors (DetailedBuilding scenario_params c m) ! 29) - 1.518\<bar> < 0.0005
        \<and> fl_rotation (b_floors (DetailedBuilding scenario_params c m) ! 29) = 87 * (pi / 180))"
proof (intro conjI allI impI)
  fix p :: params and g :: geometry_params and t d :: real and i :: nat and c m
  assume h: "p_geometry_params p = Some g" "taper g = Some t" "t \<noteq> 0" "twist g = Some d"
    "i < (30::nat)"
  show "length (b_floors (DetailedBuilding p c m)) = 30"
    by (simp add: DetailedBuilding_floors length_floors)
  show "fl_scale (b_floors (DetailedBuilding p c m) ! i) = 1 - (1 - t) * (real i / 30)"
    using h by (simp add: floor_scale taperRatio_Some)
  show "fl_rotation (b_floors (DetailedBuilding p c m) ! i) = (d * pi / 180) * (real i / 30)"
    using h by (simp add: floor_rotation twistTotal_Some)
next
  fix c m
  show "\<bar>fl_scale (b_floors (DetailedBuilding scenario_params c m) ! 29) - 0.6133\<bar> < 0.00005"
    by (simp add: scenario_scale)
  show "\<bar>fl_rotation (b_floors (DetailedBuilding scenario_params c m) ! 29) - 1.518\<bar> < 0.0005"
    using pi_lower pi_upper by (simp add: scenario_rotation abs_less_iff)
  show "fl_rotation (b_floors (DetailedBuilding scenario_params c m) ! 29) = 87 * (pi / 180)"
    by (simp add: scenario_rotation)
qed

theorem floor_formulas_witness:
  "p_geometry_params scenario_params =
     Some \<lparr>type = Some ''cylinder'', height = Some 300, taper = Some 0.6, twist = Some 90\<rparr>
   \<and> (0.6::real) \<noteq> 0 \<and> (29::nat) < 30
   \<and> length (b_floors (DetailedBuilding scenario_params False None)) = 30
   \<and> fl_scale (b_floors (DetailedBuilding scenario_params False None) ! 29)
       = 1 - (1 - 0.6) * (real 29 / 30)
   \<and> fl_rotation (b_floors (DetailedBuilding scenario_params False None) ! 29)
       = (90 * pi / 180) * (real 29 / 30)"
  using floor_formulas[THEN conjunct1, rule_format, of scenario_params
      "\<lparr>type = Some ''cylinder'', height = Some 300, taper = Some 0.6, twist = Some 90\<rparr>"
      "0.6" 90 29 False None]
  by (simp add: scenario_params_def empty_params_def)

text \<open>
  Claim C9. For every \<open>geometry_params\<close> (set or not) floor 0 has scale 1 and rotation 0;
  when the field \<open>taper\<close> is below 1 the scale does not increase with the floor index, and
  when it is 1 the scale is 1 on every floor.
\<close>

theorem taper_profile:
  "(\<forall>(p::params) c m.
      fl_scale (b_floors (DetailedBuilding p c m) ! 0) = 1 \<and>
      fl_rotation (b_floors (DetailedBuilding p c m) ! 0) = 0)
   \<and> (\<forall>(p::params) g t i j c m.
        p_geometry_params p = Some g \<longrightarrow> taper g = Some t \<longrightarrow> t < 1 \<longrightarrow> i \<le> j \<longrightarrow> j < 30 \<longrightarrow>
        fl_scale (b_floors (DetailedBuilding p c m) ! j)
          \<le> fl_scale (b_floors (DetailedBuilding p c m) ! i))
   \<and> (\<forall>(p::params) g i c m.
        p_geometry_params p = Some g \<longrightarrow> taper g = Some 1 \<longrightarrow> i < 30 \<longrightarrow>
        fl_scale (b_floors (DetailedBuilding p c m) ! i) = 1)"
proof (intro conjI allI impI)
  fix p :: params and c m
  show "fl_scale (b_floors (DetailedBuilding p c m) ! 0) = 1"
    by (simp add: floor_scale)
  show "fl_rotation (b_floors (DetailedBuilding p c m) ! 0) = 0"
    by (simp add: floor_rotation)
next
  fix p :: params and g :: geometry_params and t :: real and i j :: nat and c m
  assume h: "p_geometry_params p = Some g" "taper g = Some t" "t < 1" "i \<le> j" "j < 30"
  have r: "0 \<le> 1 - taperRatio p"
    using taperRatio_le_1[OF h(1,2,3)] by simp
  have "real i / 30 \<le> real j / 30"
    using h(4) by simp
  then have "(1 - taperRatio p) * (real i / 30) \<le> (1 - taperRatio p) * (real j / 30)"
    using r by (rule mult_left_mono)
  then show "fl_scale (b_floors (DetailedBuilding p c m) ! j)
          \<le> fl_scale (b_floors (DetailedBuilding p c m) ! i)"
    using h(4,5) by (simp add: floor_scale)
next
  fix p :: params and g :: geometry_params and i :: nat and c m
  assume h: "p_geometry_params p = Some g" "taper g = Some 1" "i < 30"
  then show "fl_scale (b_floors (DetailedBuilding p c m) ! i) = 1"
    by (simp add: floor_scale taperRatio_Some[of p g 1])
qed

theorem taper_profile_witness:
  "p_geometry_params scenario_params =
     Some \<lparr>type = Some ''cylinder'', height = Some 300, taper = Some 0.6, twist = Some 90\<rparr>
   \<and> (0.6::real) < 1 \<and> (3::nat) \<le> 7 \<and> (7::nat) < 30
   \<and> fl_scale (b_floors (DetailedBuilding scenario_params False None) ! 7)
       \<le> fl_scale (b_floors (DetailedBuilding scenario_params False None) ! 3)
   \<and> fl_scale (b_floors (DetailedBuilding
         (empty_params\<lparr>p_geometry_params := Some (empty_geometry_params\<lparr>taper := Some 1\<rparr>)\<rparr>)
         False None) ! 7) = 1"
  using taper_profile[THEN conjunct2, THEN conjunct1, rule_format, of scenario_params
      "\<lparr>type = Some ''cylinder'', height = Some 300, taper = Some 0.6, twist = Some 90\<rparr>"
      "0.6" 3 7 False None]
    taper_profile[THEN conjunct2, THEN conjunct2, rule_format,
      of "empty_params\<lparr>p_geometry_params := Some (empty_geometry_params\<lparr>taper := Some 1\<rparr>)\<rparr>"
      "empty_geometry_params\<lparr>taper := Some 1\<rparr>" 7 False None]
  by (simp add: scenario_params_def empty_params_def empty_geometry_params_def)

subsection \<open>Style resolution of the scenario text\<close>

lemma lower_scenario:
  "toLowerCase ''Self-Healing Graphene Composite'' = ''self-healing graphene composite''"
  by code_simp

lemma lower_scenario_again:
  "toLowerCase ''self-healing graphene composite'' = ''self-healing graphene composite''"
  by code_simp

lemma materialRec_scenario:
  "materialRec (params_with_material ''Self-Healing Graphene Composite'') =
     ''self-healing graphene composite''"
  by (simp add: materialRec_def params_with_material_def empty_params_def str_or_def
      lower_scenario)

text \<open>
  Claim C1, as stated: the material text \<open>Self-Healing Graphene Composite\<close> resolves to
  the style \<open>Smart Nano-Structure\<close>. It does not: the name of the resolved style is
  another one.
\<close>

theorem graphene_style_counterexample:
  "name (b_materialStyle (DetailedBuilding
      (params_with_material ''Self-Healing Graphene Composite'') False None))
   \<noteq> ''Smart Nano-Structure''"
  by (simp add: DetailedBuilding_materialStyle materialRec_scenario materialStyle_def
      lower_scenario_again)

text \<open>
  Claim C1, amended. The text contains both \<open>graphene\<close> (second rule) and
  \<open>self-healing\<close> (third rule); the rules are tried top-down and the first match wins,
  so the text resolves to the second style, \<open>Advanced Composite Alloy\<close>: dark colour,
  roughness 0.2, metalness 0.8, faint emissive.
\<close>

theorem graphene_style:
  "b_materialStyle (DetailedBuilding
      (params_with_material ''Self-Healing Graphene Composite'') isCutaway simulationMode)
   = \<lparr>color = ''#1e293b'', roughness = 0.2, metalness = 0.8,
      name = ''Advanced Composite Alloy'', emissive = Some ''#0f172a'',
      emissiveIntensity = Some 0.1\<rparr>
   \<and> str_includes (materialRec (params_with_material ''Self-Healing Graphene Composite''))
        ''graphene''
   \<and> str_includes (materialRec (params_with_material ''Self-Healing Graphene Composite''))
        ''self-healing''"
  by (simp add: DetailedBuilding_materialStyle materialRec_scenario materialStyle_def
      lower_scenario_again)

subsection \<open>The water plane\<close>

lemma run_frames_snoc:
  "run_frames p (fs @ [f]) r =
     useFrame p (fi_isCutaway f) (fi_simulationMode f) (fi_time f) (run_frames p fs r)"
  by (induction fs arbitrary: r) simp_all

lemma water_height_useFrame:
  "water_height r = Some h \<Longrightarrow>
   water_height (useFrame p c m t r) =
     Some (if m = Some ''flood'' then lerp h (floodRisk p / 2) 0.02 else lerp h (- 5) 0.05)"
  by (auto simp: water_height_def useFrame_def floodStep_def Let_def)

lemma floodRisk_cases: "floodRisk p / 2 = 7.5 \<or> floodRisk p / 2 = 2.5"
  by (simp add: floodRisk_def)

lemma target_above_rest: "- 5 < floodRisk p / 2"
  using floodRisk_cases[of p] by auto

lemma lerp_rise:
  "h < T \<Longrightarrow> h < lerp h T 0.02 \<and> lerp h T 0.02 < T \<and> T - lerp h T 0.02 = 0.98 * (T - h)"
  by (simp add: lerp_def algebra_simps)

lemma lerp_recede:
  "- 5 \<le> h \<Longrightarrow> - 5 \<le> lerp h (- 5) 0.05 \<and> lerp h (- 5) 0.05 \<le> h
    \<and> (- 5 < h \<longrightarrow> - 5 < lerp h (- 5) 0.05 \<and> lerp h (- 5) 0.05 < h)
    \<and> lerp h (- 5) 0.05 - (- 5) = 0.95 * (h - (- 5))"
  by (simp add: lerp_def algebra_simps)

text \<open>While only flood frames have run, the plane is between its rest and the target.\<close>

lemma rise_invariant:
  "list_all flooding fs \<Longrightarrow>
   \<exists>h. water_height (run_frames p fs mounted) = Some h \<and> - 5 \<le> h \<and> h < floodRisk p / 2
       \<and> (fs \<noteq> [] \<longrightarrow> - 5 < h)"
proof (induction fs rule: rev_induct)
  case Nil
  show ?case using target_above_rest[of p] by (simp add: water_height_def mounted_def)
next
  case (snoc f fs)
  then obtain h where h: "water_height (run_frames p fs mounted) = Some h" "- 5 \<le> h"
    "h < floodRisk p / 2"
    by auto
  have fl: "fi_simulationMode f = Some ''flood''"
    using snoc.prems by (simp add: flooding_def)
  have "water_height (run_frames p (fs @ [f]) mounted) = Some (lerp h (floodRisk p / 2) 0.02)"
    by (simp add: run_frames_snoc water_height_useFrame[OF h(1)] fl)
  moreover have "- 5 < lerp h (floodRisk p / 2) 0.02"
    "lerp h (floodRisk p / 2) 0.02 < floodRisk p / 2"
    using lerp_rise[OF h(3)] h(2) by auto
  ultimately show ?case by auto
qed

text \<open>Once the flood is switched off, the plane stays at or above its rest.\<close>

lemma recede_invariant:
  "list_all flooding fs \<Longrightarrow> list_all receding gs \<Longrightarrow>
   \<exists>h. water_height (run_frames p (fs @ gs) mounted) = Some h \<and> - 5 \<le> h
       \<and> (fs \<noteq> [] \<longrightarrow> - 5 < h)"
proof (induction gs rule: rev_induct)
  case Nil
  then show ?case using rise_invariant[of fs p] by auto
next
  case (snoc g gs)
  then obtain h where h: "water_height (run_frames p (fs @ gs) mounted) = Some h" "- 5 \<le> h"
    "fs \<noteq> [] \<longrightarrow> - 5 < h"
    by auto
  have fl: "fi_simulationMode g \<noteq> Some ''flood''"
    using snoc.prems by (simp add: receding_def)
  have "water_height (run_frames p (fs @ gs @ [g]) mounted) = Some (lerp h (- 5) 0.05)"
    using run_frames_snoc[of p "fs @ gs" g mounted]
    by (simp add: water_height_useFrame[OF h(1)] fl)
  then show ?case using lerp_recede[OF h(2)] h(3) by auto
qed

text \<open>
  Claim C4. From the mounted state (height \<open>-5\<close>, opacity 0), each further frame under
  \<open>flood\<close> moves the height of the water plane to \<open>lerp h (floodRisk / 2) 0.02\<close>: strictly
  up, and strictly below the target \<open>floodRisk / 2\<close>, whose distance shrinks by the factor
  0.98. After any such run, each frame under another mode moves the height to
  \<open>lerp h (-5) 0.05\<close>: not above the previous height, never below \<open>-5\<close>, strictly down once
  the water has risen, and the distance to \<open>-5\<close> shrinks by the factor 0.95, which is
  faster than the rise. \<open>floodRisk\<close> is 15 for the high tier and 5 otherwise.
\<close>

theorem flood_rise_and_recede:
  "(\<forall>fs f. list_all flooding (fs @ [f]) \<longrightarrow>
      (\<exists>h h'. water_height (run_frames p fs mounted) = Some h
         \<and> water_height (run_frames p (fs @ [f]) mounted) = Some h'
         \<and> h' = lerp h (floodRisk p / 2) 0.02
         \<and> h < h' \<and> h' < floodRisk p / 2
         \<and> floodRisk p / 2 - h' = 0.98 * (floodRisk p / 2 - h)))
   \<and> (\<forall>fs gs g. list_all flooding fs \<longrightarrow> list_all receding (gs @ [g]) \<longrightarrow>
      (\<exists>h h'. water_height (run_frames p (fs @ gs) mounted) = Some h
         \<and> water_height (run_frames p (fs @ gs @ [g]) mounted) = Some h'
         \<and> h' = lerp h (- 5) 0.05
         \<and> - 5 \<le> h' \<and> h' \<le> h \<and> (fs \<noteq> [] \<longrightarrow> - 5 < h' \<and> h' < h)
         \<and> h' - (- 5) = 0.95 * (h - (- 5))))
   \<and> (floodRisk p = (if opt_includes (Option.bind (p_profile p) flood_risk) ''High''
                      then 15 else 5))"
proof (intro conjI allI impI)
  fix fs f
  assume a: "list_all flooding (fs @ [f])"
  then obtain h where h: "water_height (run_frames p fs mounted) = Some h"
    "h < floodRisk p / 2"
    using rise_invariant[of fs p] by auto
  have fl: "fi_simulationMode f = Some ''flood''"
    using a by (simp add: flooding_def)
  have "water_height (run_frames p (fs @ [f]) mounted) = Some (lerp h (floodRisk p / 2) 0.02)"
    by (simp add: run_frames_snoc water_height_useFrame[OF h(1)] fl)
  then show "\<exists>h h'. water_height (run_frames p fs mounted) = Some h
         \<and> water_height (run_frames p (fs @ [f]) mounted) = Some h'
         \<and> h' = lerp h (floodRisk p / 2) 0.02
         \<and> h < h' \<and> h' < floodRisk p / 2
         \<and> floodRisk p / 2 - h' = 0.98 * (floodRisk p / 2 - h)"
    using h(1) lerp_rise[OF h(2)] by auto
next
  fix fs gs g
  assume a: "list_all flooding fs" "list_all receding (gs @ [g])"
  then obtain h where h: "water_height (run_frames p (fs @ gs) mounted) = Some h" "- 5 \<le> h"
    "fs \<noteq> [] \<longrightarrow> - 5 < h"
    using recede_invariant[of fs gs p] by auto
  have fl: "fi_simulationMode g \<noteq> Some ''flood''"
    using a(2) by (simp add: receding_def)
  have "water_height (run_frames p (fs @ gs @ [g]) mounted) = Some (lerp h (- 5) 0.05)"
    using run_frames_snoc[of p "fs @ gs" g mounted]
    by (simp add: water_height_useFrame[OF h(1)] fl)
  then show "\<exists>h h'. water_height (run_frames p (fs @ gs) mounted) = Some h
         \<and> water_height (run_frames p (fs @ gs @ [g]) mounted) = Some h'
         \<and> h' = lerp h (- 5) 0.05
         \<and> - 5 \<le> h' \<and> h' \<le> h \<and> (fs \<noteq> [] \<longrightarrow> - 5 < h' \<and> h' < h)
         \<and> h' - (- 5) = 0.95 * (h - (- 5))"
    using h lerp_recede[OF h(2)] by auto
next
  show "floodRisk p = (if opt_includes (Option.bind (p_profile p) flood_risk) ''High''
                      then 15 else 5)"
    by (simp add: floodRisk_def)
qed

theorem flood_rise_and_recede_witness:
  "list_all flooding ([flood_frame 0] @ [flood_frame 1])
   \<and> list_all receding ([] @ [idle_frame 2])
   \<and> (\<exists>h h'. water_height (run_frames empty_params [flood_frame 0] mounted) = Some h
         \<and> water_height (run_frames empty_params ([flood_frame 0] @ [flood_frame 1]) mounted)
             = Some h'
         \<and> h < h' \<and> h' < floodRisk empty_params / 2)
   \<and> (\<exists>h h'. water_height (run_frames empty_params ([flood_frame 0, flood_frame 1] @ [])
                  mounted) = Some h
         \<and> water_height (run_frames empty_params
               ([flood_frame 0, flood_frame 1] @ [] @ [idle_frame 2]) mounted) = Some h'
         \<and> - 5 < h' \<and> h' < h)"
proof -
  have f: "list_all flooding ([flood_frame 0] @ [flood_frame 1])"
    by (simp add: flooding_def flood_frame_def)
  have f': "list_all flooding [flood_frame 0, flood_frame 1]"
    by (simp add: flooding_def flood_frame_def)
  have r: "list_all receding ([] @ [idle_frame 2])"
    by (simp add: receding_def idle_frame_def)
  have ne: "[flood_frame 0, flood_frame 1] \<noteq> []"
    by simp
  show ?thesis
    using f r
      flood_rise_and_recede[of empty_params, THEN conjunct1, rule_format, OF f]
      flood_rise_and_recede[of empty_params, THEN conjunct2, THEN conjunct1, rule_format,
        OF f' r] ne
    by blast
qed

subsection \<open>Roll and pitch outside the quake mode\<close>

text \<open>
  Claim C5. On a frame whose mode is not \<open>quake\<close> (idle, flood, fire, whatever the mode of
  the frame before), the roll \<open>rotation.z\<close> and the pitch \<open>rotation.x\<close> of the mounted
  group become \<open>lerp current 0 0.1\<close>, which is nine tenths of the current angle: an angle
  that is not zero is not set to zero.
\<close>

theorem upright_recovery:
  assumes "simulationMode \<noteq> Some ''quake''" and "groupRef r = Some g"
  shows "\<exists>g'. groupRef (useFrame p isCutaway simulationMode time r) = Some g'
           \<and> rot_z g' = lerp (rot_z g) 0 0.1 \<and> rot_x g' = lerp (rot_x g) 0 0.1
           \<and> rot_z g' = 0.9 * rot_z g \<and> rot_x g' = 0.9 * rot_x g
           \<and> (rot_z g \<noteq> 0 \<longrightarrow> rot_z g' \<noteq> 0) \<and> (rot_x g \<noteq> 0 \<longrightarrow> rot_x g' \<noteq> 0)"
  using assms
  by (simp add: useFrame_def seismicStep_def baseRotation_def lerp_def)

theorem upright_recovery_witness:
  "Some ''flood'' \<noteq> Some ''quake''
   \<and> (\<exists>g g'. groupRef (useFrame empty_params False (Some ''quake'') 1 mounted) = Some g
        \<and> rot_z g = sin 5 * 0.02 * 2 \<and> rot_z g \<noteq> 0
        \<and> groupRef (useFrame empty_params False (Some ''flood'') 2
              (useFrame empty_params False (Some ''quake'') 1 mounted)) = Some g'
        \<and> rot_z g' = 0.9 * rot_z g \<and> rot_x g' = 0.9 * rot_x g \<and> rot_z g' \<noteq> 0)"
proof -
  let ?r = "useFrame empty_params False (Some ''quake'') 1 mounted"
  have m: "Some ''flood'' \<noteq> Some ''quake''"
    by simp
  obtain g where g: "groupRef ?r = Some g" "rot_z g = sin 5 * 0.02 * 2"
    by (simp add: useFrame_def seismicStep_def baseRotation_def mounted_def seismicPGA_def
        empty_params_def opt_includes_def no_simulation_def Let_def)
  have "sin (5::real) \<noteq> 0"
  proof
    assume "sin (5::real) = 0"
    then obtain k :: int where k: "(5::real) = of_int k * pi"
      by (auto simp: sin_zero_iff_int2)
    have "1 < k" "k < 2"
    proof -
      have "of_int k * pi > 1 * pi" using k pi_upper by simp
      then show "1 < k" using pi_gt_zero by (simp add: mult_less_cancel_right)
      have "of_int k * pi < 2 * pi" using k pi_lower by simp
      then show "k < 2" using pi_gt_zero by (simp add: mult_less_cancel_right)
    qed
    then show False by simp
  qed
  then have nz: "rot_z g \<noteq> 0"
    using g(2) by simp
  from upright_recovery[OF m g(1), of empty_params False 2] nz g m
  show ?thesis
    by auto
qed

subsection \<open>The snapshot\<close>

lemma querySelector_none: "(\<forall>c. Canvas c \<notin> set doc) \<Longrightarrow> querySelector_canvas doc = None"
  by (induction doc rule: querySelector_canvas.induct) auto

lemma querySelector_first:
  "(\<forall>c'. Canvas c' \<notin> set pre) \<Longrightarrow> querySelector_canvas (pre @ Canvas c # rest) = Some c"
  by (induction pre rule: querySelector_canvas.induct) auto

text \<open>
  Claim C8. When the document holds no canvas, \<open>captureSnapshot\<close> returns null (\<open>None\<close>;
  the function is total, so nothing is raised), and it returns null only then. When the
  document holds a canvas, it returns the string that the first canvas encodes for
  \<^verbatim>\<open>image/png\<close>.
\<close>

theorem captureSnapshot_total:
  "((\<forall>c. Canvas c \<notin> set doc) \<longrightarrow> captureSnapshot doc = None)
   \<and> (\<forall>pre c rest. doc = pre @ Canvas c # rest \<longrightarrow> (\<forall>c'. Canvas c' \<notin> set pre) \<longrightarrow>
        captureSnapshot doc = Some (toDataURL c ''image/png''))
   \<and> (captureSnapshot doc = None \<longrightarrow> (\<forall>c. Canvas c \<notin> set doc))"
proof (intro conjI allI impI)
  assume "\<forall>c. Canvas c \<notin> set doc"
  then show "captureSnapshot doc = None"
    by (simp add: captureSnapshot_def querySelector_none)
next
  fix pre c rest
  assume "doc = pre @ Canvas c # rest" "\<forall>c'. Canvas c' \<notin> set pre"
  then show "captureSnapshot doc = Some (toDataURL c ''image/png'')"
    by (simp add: captureSnapshot_def querySelector_first)
next
  fix c
  assume n: "captureSnapshot doc = None"
  then have "querySelector_canvas doc = None"
    by (simp add: captureSnapshot_def split: option.splits)
  then show "Canvas c \<notin> set doc"
    by (induction doc rule: querySelector_canvas.induct) auto
qed

theorem captureSnapshot_total_witness:
  "captureSnapshot [Element ''div'', Element ''button''] = None
   \<and> captureSnapshot ([Element ''div''] @ Canvas example_canvas # [Element ''div''])
       = Some ''data:image/png;base64,iVBORw0KGgo=''"
proof -
  have a: "\<forall>c. Canvas c \<notin> set [Element ''div'', Element ''button'']"
    by simp
  have b: "\<forall>c'. Canvas c' \<notin> set [Element ''div'']"
    by simp
  from captureSnapshot_total[of "[Element ''div'', Element ''button'']"] a
  have 1: "captureSnapshot [Element ''div'', Element ''button''] = None"
    by blast
  from captureSnapshot_total[of "[Element ''div''] @ Canvas example_canvas # [Element ''div'']"] b
  have 2: "captureSnapshot ([Element ''div''] @ Canvas example_canvas # [Element ''div''])
       = Some (toDataURL example_canvas ''image/png'')"
    by blast
  show ?thesis
    using 1 2 by (simp add: example_canvas_def)
qed

subsection \<open>What the cutaway flag affects\<close>



lemma list_all_floorGroups:
  "list_all P (sc_floorGroups (b_scene (DetailedBuilding p c m))) =
   list_all (\<lambda>(i, fl). P (floorGroup p c m fl i))
     (enumerate 0 (floors (taperRatio p) (twistTotal p)))"
  by (simp add: DetailedBuilding_floorGroups list_all_iff case_prod_unfold)








subsection \<open>Columns and outrigger belts\<close>

lemma length_colPositions:
  "3 \<le> length (colPositions ty s) \<and> length (colPositions ty s) \<le> 8"
  by (simp add: colPositions_def Let_def)

lemma length_columns:
  "length (columns p c fl) = length (colPositions (type (geoParams p)) (fl_scale fl))"
  by (simp add: columns_def Let_def)

lemma nth_columns:
  "idx < length (colPositions (type (geoParams p)) (fl_scale fl)) \<Longrightarrow>
   columns p c fl ! idx =
     (let pos = colPositions (type (geoParams p)) (fl_scale fl) ! idx in
      if hasDiagrid p then diagridNode c idx pos
      else if hasThickColumns p then megaColumn c pos
      else stdColumn c pos)"
  by (simp add: columns_def Let_def nth_enumerate_eq)

text \<open>
  Claim C7. On every floor \<open>i\<close> there is one column per column position (at least
  three), and all of them have one style: with \<open>hasDiagrid\<close> the thin diagonal member,
  tilted by \<open>pi / 4\<close> at even position indices and by \<open>- pi / 4\<close> at odd ones; otherwise
  with \<open>hasThickColumns\<close> the upright column of radius 0.6; otherwise the upright column
  of radius 0.25. Whatever the style, the belt is drawn on this floor exactly when
  \<open>hasOutriggers\<close> holds and \<open>i mod 10 = 0\<close>, and it is then one red emissive mesh at
  height 0.5 whose geometry is a ring 0.8 high around the perimeter: of radius
  \<open>4.5 * scale + 0.5\<close> with 32, 6 or 3 segments for the cylinder, hexagon and prism, the
  four-sided frustum from 0.5 to that radius for the pyramid, and the box of side 10.2
  for every other archetype.
\<close>

theorem column_style_chain:
  assumes "i < 30"
  shows "let g = sc_floorGroups (b_scene (DetailedBuilding p c m)) ! i;
             fl = b_floors (DetailedBuilding p c m) ! i;
             cps = colPositions (type (geoParams p)) (fl_scale fl)
         in length (fg_columns g) = length cps \<and> 3 \<le> length cps
          \<and> (\<forall>idx < length cps.
                m_position (fg_columns g ! idx) = (fst (cps ! idx), 1, snd (cps ! idx))
              \<and> (if hasDiagrid p
                 then m_geometry (fg_columns g ! idx) = [CylinderGeometry 0.2 0.2 5 4]
                    \<and> m_rotation (fg_columns g ! idx)
                        = (0, 0, if idx mod 2 = 0 then pi / 4 else - pi / 4)
                 else if hasThickColumns p
                 then m_geometry (fg_columns g ! idx) = [CylinderGeometry 0.6 0.6 2 8]
                    \<and> m_rotation (fg_columns g ! idx) = (0, 0, 0)
                 else m_geometry (fg_columns g ! idx) = [CylinderGeometry 0.25 0.25 2 8]
                    \<and> m_rotation (fg_columns g ! idx) = (0, 0, 0)))
          \<and> fg_outriggers g
               = (if hasOutriggers p \<and> i mod 10 = 0
                  then [\<lparr>m_position = (0, 0.5, 0), m_rotation = (0, 0, 0),
                         m_geometry =
                           [if type (geoParams p) = Some ''cylinder''
                            then CylinderGeometry (4.5 * fl_scale fl + 0.5)
                                   (4.5 * fl_scale fl + 0.5) 0.8 32
                            else if type (geoParams p) = Some ''hexagon''
                            then CylinderGeometry (4.5 * fl_scale fl + 0.5)
                                   (4.5 * fl_scale fl + 0.5) 0.8 6
                            else if type (geoParams p) = Some ''prism''
                            then CylinderGeometry (4.5 * fl_scale fl + 0.5)
                                   (4.5 * fl_scale fl + 0.5) 0.8 3
                            else if type (geoParams p) = Some ''pyramid''
                            then CylinderGeometry 0.5 (4.5 * fl_scale fl + 0.5) 0.8 4
                            else BoxGeometry 10.2 0.8 10.2],
                         m_material =
                           \<lparr>mat_color = ''#ef4444'', mat_metalness = None,
                            mat_roughness = None, mat_emissive = Some ''#7f1d1d'',
                            mat_emissiveIntensity = Some 0.5, mat_opacity = None,
                            mat_transmission = None,
                            mat_clippingPlanes = Some (if c then
                              [\<lparr>pl_normal = (- 1, 0, 0), pl_constant = 0\<rparr>] else [])\<rparr>\<rparr>]
                  else [])"
proof -
  have g: "sc_floorGroups (b_scene (DetailedBuilding p c m)) ! i =
     floorGroup p c m (mk_floor (taperRatio p) (twistTotal p) i) i"
    using assms by (rule nth_floorGroups)
  have fl: "b_floors (DetailedBuilding p c m) ! i = mk_floor (taperRatio p) (twistTotal p) i"
    using assms by (simp add: DetailedBuilding_floors nth_floors)
  show ?thesis
    unfolding Let_def g fl
    using length_colPositions[of "type (geoParams p)"
        "fl_scale (mk_floor (taperRatio p) (twistTotal p) i)"]
    by (auto simp: floorGroup_def length_columns nth_columns diagridNode_def megaColumn_def
        stdColumn_def outriggers_def outriggerBelt_def plain_material_def clipPlanes_def
        Let_def)
qed

lemma lower_structure:
  "toLowerCase ''Diagrid Exoskeleton with Outrigger Belts'' =
     ''diagrid exoskeleton with outrigger belts''"
  by code_simp

lemma structureRec_scenario:
  "structureRec scenario_structure_params = ''diagrid exoskeleton with outrigger belts''"
  by (simp add: structureRec_def scenario_structure_params_def empty_params_def str_or_def
      lower_structure)

lemma scenario_flags:
  "hasDiagrid scenario_structure_params \<and> hasOutriggers scenario_structure_params
   \<and> \<not> hasThickColumns scenario_structure_params"
  by (simp add: hasDiagrid_def hasOutriggers_def hasThickColumns_def structureRec_scenario)

lemma scenario_type: "type (geoParams scenario_structure_params) = Some ''box''"
  by (simp add: geoParams_def scenario_structure_params_def empty_params_def
      empty_geometry_params_def)

theorem column_style_chain_witness:
  "(10::nat) < 30 \<and> hasDiagrid scenario_structure_params
   \<and> hasOutriggers scenario_structure_params \<and> \<not> hasThickColumns scenario_structure_params
   \<and> length (fg_columns (sc_floorGroups (b_scene
         (DetailedBuilding scenario_structure_params False None)) ! 10)) = 4
   \<and> m_geometry (fg_columns (sc_floorGroups (b_scene
         (DetailedBuilding scenario_structure_params False None)) ! 10) ! 0)
       = [CylinderGeometry 0.2 0.2 5 4]
   \<and> m_rotation (fg_columns (sc_floorGroups (b_scene
         (DetailedBuilding scenario_structure_params False None)) ! 10) ! 0) = (0, 0, pi / 4)
   \<and> m_rotation (fg_columns (sc_floorGroups (b_scene
         (DetailedBuilding scenario_structure_params False None)) ! 10) ! 1) = (0, 0, - pi / 4)
   \<and> length (fg_outriggers (sc_floorGroups (b_scene
         (DetailedBuilding scenario_structure_params False None)) ! 10)) = 1
   \<and> map shape (fg_outriggers (sc_floorGroups (b_scene
         (DetailedBuilding scenario_structure_params False None)) ! 10))
       = [((0, 0.5, 0), (0, 0, 0), [BoxGeometry 10.2 0.8 10.2])]
   \<and> map (\<lambda>b. mat_color (m_material b)) (fg_outriggers (sc_floorGroups (b_scene
         (DetailedBuilding scenario_structure_params False None)) ! 10)) = [''#ef4444'']
   \<and> (5::nat) < 30
   \<and> fg_outriggers (sc_floorGroups (b_scene
         (DetailedBuilding scenario_structure_params False None)) ! 5) = []"
proof -
  have i: "(10::nat) < 30" by simp
  have j: "(5::nat) < 30" by simp
  have n: "length (colPositions (Some ''box'') s) = 4" for s
    by (simp add: colPositions_def)
  show ?thesis
    using column_style_chain[OF i, of scenario_structure_params False None]
      column_style_chain[OF j, of scenario_structure_params False None] scenario_flags
    by (simp add: Let_def scenario_type n shape_def)
qed

subsection \<open>What the height affects\<close>

lemma wh_type: "type (geoParams (with_height p g h)) = type g"
  and wh_taper: "taperRatio (with_height p g h) = num_or (taper g) 1"
  and wh_twist: "twistTotal (with_height p g h) = num_or (twist g) 0 * (pi / 180)"
  and wh_height: "height_of (with_height p g h) = num_or h 300"
  and wh_seismic: "seismicPGA (with_height p g h) = seismicPGA p"
  and wh_flood: "floodRisk (with_height p g h) = floodRisk p"
  and wh_material: "materialRec (with_height p g h) = materialRec p"
  and wh_structure: "structureRec (with_height p g h) = structureRec p"
  and wh_profile: "p_profile (with_height p g h) = p_profile p"
  by (simp_all add: with_height_def geoParams_def taperRatio_def twistTotal_def height_of_def
      seismicPGA_def floodRisk_def materialRec_def structureRec_def)

lemma wh_hasDiagrid: "hasDiagrid (with_height p g h) = hasDiagrid p"
  and wh_hasThickColumns: "hasThickColumns (with_height p g h) = hasThickColumns p"
  and wh_hasOutriggers: "hasOutriggers (with_height p g h) = hasOutriggers p"
  by (simp_all add: hasDiagrid_def hasThickColumns_def hasOutriggers_def wh_structure)

lemma wh_floorSlab:
  "floorSlab (with_height p g h) c m fl = floorSlab (with_height p g h') c m fl"
  by (simp add: floorSlab_def wh_type wh_material cong: if_cong)

lemma wh_innerLayer:
  "innerLayer (with_height p g h) c fl = innerLayer (with_height p g h') c fl"
  by (simp add: innerLayer_def layerColor_def wh_type wh_material cong: if_cong)

lemma wh_insulation:
  "insulation (with_height p g h) c fl i = insulation (with_height p g h') c fl i"
  by (simp add: insulation_def wh_type cong: if_cong)

lemma wh_xrayLabels: "xrayLabels (with_height p g h) i = xrayLabels (with_height p g h') i"
  by (simp add: xrayLabels_def wh_structure wh_material cong: if_cong)

lemma wh_xrayGroup:
  "xrayGroup (with_height p g h) c fl i = xrayGroup (with_height p g h') c fl i"
  by (simp add: xrayGroup_def wh_innerLayer[of p g h _ fl h'] wh_insulation[of p g h _ fl i h']
      wh_xrayLabels[of p g h i h'] cong: if_cong)

lemma wh_balconies:
  "balconies (with_height p g h) c fl i = balconies (with_height p g h') c fl i"
  by (simp add: balconies_def wh_type cong: if_cong)

lemma wh_mechanicalFloor:
  "mechanicalFloor (with_height p g h) c fl i = mechanicalFloor (with_height p g h') c fl i"
  by (simp add: mechanicalFloor_def wh_type cong: if_cong)

lemma wh_facade: "facade (with_height p g h) c m fl = facade (with_height p g h') c m fl"
  by (simp add: facade_def wh_type wh_material cong: if_cong)

lemma wh_windowFrames:
  "windowFrames (with_height p g h) c fl i = windowFrames (with_height p g h') c fl i"
  by (simp add: windowFrames_def wh_type wh_profile cong: if_cong)

lemma wh_columns: "columns (with_height p g h) c fl = columns (with_height p g h') c fl"
  by (simp add: columns_def wh_type wh_hasDiagrid wh_hasThickColumns cong: if_cong)

lemma wh_outriggers:
  "outriggers (with_height p g h) c fl i = outriggers (with_height p g h') c fl i"
  by (simp add: outriggers_def outriggerBelt_def wh_type wh_hasOutriggers cong: if_cong)

lemma wh_floorGroup:
  "floorGroup (with_height p g h) c m fl i = floorGroup (with_height p g h') c m fl i"
  unfolding floorGroup_def
  by (simp only: wh_floorSlab[of p g h c m fl h'] wh_xrayGroup[of p g h c fl i h']
      wh_balconies[of p g h c fl i h'] wh_mechanicalFloor[of p g h c fl i h']
      wh_facade[of p g h c m fl h'] wh_windowFrames[of p g h c fl i h']
      wh_columns[of p g h c fl h'] wh_outriggers[of p g h c fl i h'])

lemma wh_podium: "podium (with_height p g h) c = podium (with_height p g h') c"
  by (simp add: podium_def wh_type wh_flood)

lemma wh_pilings: "pilings (with_height p g h) c = pilings (with_height p g h') c"
  by (simp add: pilings_def wh_flood wh_seismic)

lemma wh_seismicStep: "seismicStep (with_height p g h) = seismicStep (with_height p g h')"
  by (intro ext) (simp add: seismicStep_def wh_seismic)

lemma wh_floodStep: "floodStep (with_height p g h) = floodStep (with_height p g h')"
  by (intro ext) (simp add: floodStep_def wh_flood)

lemma wh_useFrame: "useFrame (with_height p g h) = useFrame (with_height p g h')"
  by (intro ext) (simp add: useFrame_def wh_seismicStep[of p g h h'] wh_floodStep[of p g h h'])

text \<open>
  Claim C10. Two result objects whose \<open>geometry_params\<close> differ only in the height field
  (\<open>h\<close> and \<open>h'\<close>, set or unset) give the same array of 30 floor descriptors, the same
  per-frame update, and the same render but for the cut face. The cut face, drawn under
  cutaway only, is the plane of side \<open>height / 5\<close> placed at \<open>height / 25\<close>, where
  \<open>height\<close> is the field or 300 when it is unset or zero.
\<close>

theorem height_only_cut_face:
  "b_floors (DetailedBuilding (with_height p g h) c m)
     = b_floors (DetailedBuilding (with_height p g h') c m)
   \<and> length (b_floors (DetailedBuilding (with_height p g h) c m)) = 30
   \<and> DetailedBuilding (with_height p g h) c m
     = (DetailedBuilding (with_height p g h') c m)
         \<lparr>b_scene := (b_scene (DetailedBuilding (with_height p g h') c m))
            \<lparr>sc_cutFace := sc_cutFace (b_scene (DetailedBuilding (with_height p g h) c m))\<rparr>\<rparr>
   \<and> useFrame (with_height p g h) = useFrame (with_height p g h')
   \<and> map shape (sc_cutFace (b_scene (DetailedBuilding (with_height p g h) True m)))
     = [((- 0.05, num_or h 300 / 25, 0), (0, pi / 2, 0),
         [PlaneGeometry (num_or h 300 / 5) (num_or h 300 / 5)])]
   \<and> sc_cutFace (b_scene (DetailedBuilding (with_height p g h) False m)) = []"
proof (intro conjI)
  show "b_floors (DetailedBuilding (with_height p g h) c m)
     = b_floors (DetailedBuilding (with_height p g h') c m)"
    by (simp add: DetailedBuilding_floors wh_taper wh_twist)
  show "length (b_floors (DetailedBuilding (with_height p g h) c m)) = 30"
    by (simp add: DetailedBuilding_floors length_floors)
  show "DetailedBuilding (with_height p g h) c m
     = (DetailedBuilding (with_height p g h') c m)
         \<lparr>b_scene := (b_scene (DetailedBuilding (with_height p g h') c m))
            \<lparr>sc_cutFace := sc_cutFace (b_scene (DetailedBuilding (with_height p g h) c m))\<rparr>\<rparr>"
    by (simp add: DetailedBuilding_def Let_def wh_taper wh_twist wh_material
        wh_floorGroup[of p g h c m _ _ h'] wh_podium[of p g h c h'] wh_pilings[of p g h c h'])
  show "useFrame (with_height p g h) = useFrame (with_height p g h')"
    by (rule wh_useFrame)
  show "map shape (sc_cutFace (b_scene (DetailedBuilding (with_height p g h) True m)))
     = [((- 0.05, num_or h 300 / 25, 0), (0, pi / 2, 0),
         [PlaneGeometry (num_or h 300 / 5) (num_or h 300 / 5)])]"
    by (simp add: DetailedBuilding_def Let_def cutFace_def shape_def wh_height)
  show "sc_cutFace (b_scene (DetailedBuilding (with_height p g h) False m)) = []"
    by (simp add: DetailedBuilding_def Let_def cutFace_def)
qed

subsection \<open>An archetype that is not set\<close>

lemma type_empty: "type (geoParams empty_params) = None"
  by (simp add: geoParams_def empty_params_def empty_geometry_params_def)

lemma unsupported_floorGroup:
  assumes "\<not> supported (type (geoParams p))"
  shows "m_geometry (fg_slab (floorGroup p c m fl i)) = []
     \<and> m_geometry (fg_facade (floorGroup p c m fl i)) = []
     \<and> list_all (\<lambda>x. m_geometry x = []) (fg_mechanical (floorGroup p c m fl i))
     \<and> list_all (\<lambda>x. m_geometry (xr_inner x) = []
           \<and> list_all (\<lambda>y. m_geometry y = []) (xr_insulation x))
         (fg_xray (floorGroup p c m fl i))"
  using assms
  by (simp add: supported_def floorGroup_def floorSlab_def facade_def mechanicalFloor_def
      xrayGroup_def innerLayer_def insulation_def layerGeometry_def Let_def)

lemma unsupported_columns:
  assumes "\<not> supported (type (geoParams p))"
  shows "map (\<lambda>x. (fst (m_position x), snd (snd (m_position x))))
           (fg_columns (floorGroup p c m fl i))
     = [(4.5, 4.5), (- 4.5, 4.5), (4.5, - 4.5), (- 4.5, - 4.5)]"
  using assms
  by (simp add: supported_def floorGroup_def columns_def colPositions_def diagridNode_def
      megaColumn_def stdColumn_def Let_def)

text \<open>
  Claim C2, on the code. With the empty result object, which the Dashboard passes
  before an analysis, the archetype is not set, and on each of the 30 floors the slab,
  the facade, the mechanical block, the inner material ring and the insulation ring have
  no geometry child: they are not drawn with the box profile. The columns of the same
  floors do fall back to the four corners of the box.
\<close>

theorem unset_archetype_layers_empty:
  "\<not> supported (type (geoParams empty_params))
   \<and> length (sc_floorGroups (b_scene (DetailedBuilding empty_params True None))) = 30
   \<and> list_all (\<lambda>g. m_geometry (fg_slab g) = [] \<and> m_geometry (fg_facade g) = []
          \<and> list_all (\<lambda>x. m_geometry x = []) (fg_mechanical g)
          \<and> list_all (\<lambda>x. m_geometry (xr_inner x) = []
                \<and> list_all (\<lambda>y. m_geometry y = []) (xr_insulation x)) (fg_xray g)
          \<and> map (\<lambda>x. (fst (m_position x), snd (snd (m_position x)))) (fg_columns g)
              = [(4.5, 4.5), (- 4.5, 4.5), (4.5, - 4.5), (- 4.5, - 4.5)])
        (sc_floorGroups (b_scene (DetailedBuilding empty_params True None)))
   \<and> list_all (\<lambda>g. m_geometry (fg_slab g) = [] \<and> m_geometry (fg_facade g) = [])
        (sc_floorGroups (b_scene (DetailedBuilding empty_params False None)))"
proof -
  have u: "\<not> supported (type (geoParams empty_params))"
    by (simp add: supported_def type_empty)
  show ?thesis
    unfolding list_all_floorGroups
    using u unsupported_floorGroup[OF u] unsupported_columns[OF u]
    by (simp add: DetailedBuilding_floorGroups length_floors list_all_iff case_prod_unfold)
qed

end
